theory Spec2Isabelle
  imports Main
begin

section \<open>JavaScript values\<close>

text \<open>
  The values that reach the \<open>DorisAgent\<close> class of
  \<^verbatim>\<open>examples/nodejs_agent_example.js\<close>: \<open>undefined\<close>, \<open>null\<close>, booleans, strings,
  arrays and plain data objects (own properties in insertion order, with distinct keys, and
  \<open>Object.prototype\<close> behind them). Numbers are the integer-valued ones of the safe range,
  which print in decimal; no operation of the class computes with a number.
\<close>

datatype jsval =
    JUndefined
  | JNull
  | JBool bool
  | JNum int
  | JStr string
  | JArr "jsval list"
  | JObj "(string \<times> jsval) list"

text \<open>What an operation can throw or reject with: a \<open>TypeError\<close> raised by the language
  itself, or the error the axios call rejected with (its message and, when the server did
  answer, the status and body of the answer).\<close>

datatype error =
    TypeError
  | AxiosError string "(nat \<times> jsval) option"

text \<open>ToBoolean, as used by \<open>||\<close> and \<open>if\<close>.\<close>

fun truthy :: "jsval \<Rightarrow> bool" where
  "truthy JUndefined = False"
| "truthy JNull = False"
| "truthy (JBool b) = b"
| "truthy (JNum n) = (n \<noteq> 0)"
| "truthy (JStr s) = (s \<noteq> [])"
| "truthy (JArr xs) = True"
| "truthy (JObj ps) = True"

text \<open>\<open>a || b\<close>.\<close>

definition js_or :: "jsval \<Rightarrow> jsval \<Rightarrow> jsval" where
  "js_or a b = (if truthy a then a else b)"

text \<open>A default parameter \<open>f(x = d)\<close>: the default is taken when the argument is
  \<open>undefined\<close> (or missing), and only then.\<close>

definition js_default :: "jsval \<Rightarrow> jsval \<Rightarrow> jsval" where
  "js_default v d = (if v = JUndefined then d else v)"

text \<open>\<open>typeof v === 'string'\<close>.\<close>

fun is_string :: "jsval \<Rightarrow> bool" where
  "is_string (JStr s) = True"
| "is_string v = False"

text \<open>\<open>v.replace(/\/$/, '')\<close>: on a string, the one slash at the very end of the input (no
  \<open>m\<close> or \<open>g\<close> flag) is removed; any other value has no callable \<open>replace\<close>.\<close>

fun replace_trailing_slash :: "jsval \<Rightarrow> error + string" where
  "replace_trailing_slash (JStr s) =
     Inr (if s \<noteq> [] \<and> last s = CHR ''/'' then butlast s else s)"
| "replace_trailing_slash v = Inl TypeError"

text \<open>Decimal digits of a natural number.\<close>

fun show_nat :: "nat \<Rightarrow> string" where
  "show_nat n =
     (if n < 10 then [''0123456789'' ! n]
      else show_nat (n div 10) @ [''0123456789'' ! (n mod 10)])"

declare show_nat.simps [simp del]

definition show_int :: "int \<Rightarrow> string" where
  "show_int i = (if i < 0 then CHR ''-'' # show_nat (nat (- i)) else show_nat (nat i))"

text \<open>
  \<open>v.toString()\<close>, the method call. \<open>undefined\<close> and \<open>null\<close> have no properties; an own
  data property \<open>toString\<close> of an object shadows the inherited method and is not callable;
  an array joins its elements with commas, \<open>undefined\<close> and \<open>null\<close> elements giving the
  empty string.
\<close>

fun js_toString :: "jsval \<Rightarrow> error + string"
  and js_join :: "jsval list \<Rightarrow> error + string" where
  "js_toString JUndefined = Inl TypeError"
| "js_toString JNull = Inl TypeError"
| "js_toString (JBool b) = Inr (if b then ''true'' else ''false'')"
| "js_toString (JNum n) = Inr (show_int n)"
| "js_toString (JStr s) = Inr s"
| "js_toString (JArr xs) = js_join xs"
| "js_toString (JObj ps) =
     (case map_of ps ''toString'' of
        None \<Rightarrow> Inr ''[object Object]''
      | Some f \<Rightarrow> Inl TypeError)"
| "js_join [] = Inr []"
| "js_join (x # xs) =
     (case (if x = JUndefined \<or> x = JNull then Inr [] else js_toString x) of
        Inl e \<Rightarrow> Inl e
      | Inr s \<Rightarrow>
          (if xs = [] then Inr s
           else case js_join xs of Inl e \<Rightarrow> Inl e | Inr t \<Rightarrow> Inr (s @ '','' @ t)))"

text \<open>\<open>`${v}`\<close>, the conversion of a template literal.\<close>

definition js_String :: "jsval \<Rightarrow> error + string" where
  "js_String v =
     (if v = JUndefined then Inr ''undefined''
      else if v = JNull then Inr ''null''
      else js_toString v)"

text \<open>\<open>v.k\<close> for a name \<open>k\<close> that no built-in prototype defines (\<open>tables\<close>, \<open>schema\<close>):
  reading a property of \<open>undefined\<close> or \<open>null\<close> throws, a missing property is
  \<open>undefined\<close>.\<close>

fun get_field :: "jsval \<Rightarrow> string \<Rightarrow> error + jsval" where
  "get_field JUndefined k = Inl TypeError"
| "get_field JNull k = Inl TypeError"
| "get_field (JObj ps) k = Inr (case map_of ps k of None \<Rightarrow> JUndefined | Some v \<Rightarrow> v)"
| "get_field v k = Inr JUndefined"

text \<open>\<open>o.k = v\<close> on the properties of an object: an existing key keeps its place, a new
  one goes to the end.\<close>

fun set_prop :: "(string \<times> jsval) list \<Rightarrow> string \<Rightarrow> jsval \<Rightarrow> (string \<times> jsval) list" where
  "set_prop [] k v = [(k, v)]"
| "set_prop ((k', v') # ps) k v =
     (if k' = k then (k, v) # ps else (k', v') # set_prop ps k v)"

text \<open>Whether the JSON text of a value has the member \<open>k\<close>: \<open>JSON.stringify\<close> writes every
  own property of an object but those whose value is \<open>undefined\<close>.\<close>

fun json_has :: "jsval \<Rightarrow> string \<Rightarrow> bool" where
  "json_has (JObj ps) k =
     (case map_of ps k of None \<Rightarrow> False | Some v \<Rightarrow> v \<noteq> JUndefined)"
| "json_has v k = False"

section \<open>The HTTP client\<close>

datatype http_method = GET | POST

text \<open>A \<open>FormData\<close> is the list of its \<open>append\<close> calls: a file part holds the read stream
  that \<open>fs.createReadStream\<close> made for a path, a field part the value given.\<close>

datatype part =
    FilePart string string
  | FieldPart string jsval

datatype body = NoBody | Data jsval | Form "part list"

text \<open>The \<open>headers\<close> option of a call: absent, or \<open>form.getHeaders()\<close>.\<close>

datatype headers = DefaultHeaders | FormHeaders

text \<open>The instance \<open>axios.create\<close> returns, with the two settings it was given; the
  timeout is in milliseconds.\<close>

record axios_instance =
  baseURL :: string
  timeout :: nat

record request =
  req_method :: http_method
  req_baseURL :: string
  req_url :: string
  req_data :: body
  req_headers :: headers
  req_timeout :: nat

record response =
  status :: nat
  data :: jsval

text \<open>
  The network is outside the program: \<open>net log req\<close> is what axios settles the request
  \<open>req\<close> with after the requests \<open>log\<close> have been sent, \<open>Inl\<close> a rejection (no answer, a
  timeout, or an answer whose status is not 2xx) and \<open>Inr\<close> the response.
\<close>

type_synonym transport = "request list \<Rightarrow> request \<Rightarrow> error + response"

definition axios_create :: "string \<Rightarrow> nat \<Rightarrow> axios_instance" where
  "axios_create b t = \<lparr>baseURL = b, timeout = t\<rparr>"

definition axios_request ::
  "transport \<Rightarrow> axios_instance \<Rightarrow> http_method \<Rightarrow> string \<Rightarrow> body \<Rightarrow> headers \<Rightarrow>
   request list \<Rightarrow> (error + response) \<times> request list" where
  "axios_request net c m u d h log =
     (let req = \<lparr>req_method = m, req_baseURL = baseURL c, req_url = u, req_data = d,
                 req_headers = h, req_timeout = timeout c\<rparr>
      in (net log req, log @ [req]))"

definition axios_get ::
  "transport \<Rightarrow> axios_instance \<Rightarrow> string \<Rightarrow> request list \<Rightarrow>
   (error + response) \<times> request list" where
  "axios_get net c u log = axios_request net c GET u NoBody DefaultHeaders log"

definition axios_post ::
  "transport \<Rightarrow> axios_instance \<Rightarrow> string \<Rightarrow> body \<Rightarrow> headers \<Rightarrow> request list \<Rightarrow>
   (error + response) \<times> request list" where
  "axios_post net c u d h log = axios_request net c POST u d h log"

section \<open>The class DorisAgent\<close>

record DorisAgent =
  baseUrl :: string
  apiKey :: jsval
  client :: axios_instance

text \<open>
  \<open>new DorisAgent(baseUrl, apiKey)\<close>, with the requests sent so far passed through: the
  agent, or the error thrown, and the requests sent after the call.
\<close>

definition constructor ::
  "jsval \<Rightarrow> jsval \<Rightarrow> request list \<Rightarrow> (error + DorisAgent) \<times> request list" where
  "constructor baseUrl' apiKey' log =
     (let b = js_default baseUrl' (JStr ''http://localhost:8018'');
          k = js_default apiKey' JNull
      in case replace_trailing_slash b of
           Inl e \<Rightarrow> (Inl e, log)
         | Inr u \<Rightarrow>
             (Inr \<lparr>baseUrl = u, apiKey = k, client = axios_create u 60000\<rparr>, log))"

text \<open>
  What a method call leaves behind: the value the promise resolves with or the error it
  rejects with, the object \<open>this\<close> as it is after the call, and the requests sent.
\<close>

record outcome =
  result :: "error + jsval"
  self :: DorisAgent
  sent :: "request list"

text \<open>\<open>const response = await \<dots>; return f(response)\<close> with no \<open>try\<close> around it, as in
  every method of the class: a rejection of the awaited call rejects the method.\<close>

definition await_return ::
  "DorisAgent \<Rightarrow> (response \<Rightarrow> error + jsval) \<Rightarrow> (error + response) \<times> request list \<Rightarrow> outcome" where
  "await_return this f r =
     (case r of
        (Inl e, log') \<Rightarrow> \<lparr>result = Inl e, self = this, sent = log'\<rparr>
      | (Inr resp, log') \<Rightarrow> \<lparr>result = f resp, self = this, sent = log'\<rparr>)"

text \<open>An exception thrown before any call is made.\<close>

definition throw :: "DorisAgent \<Rightarrow> error \<Rightarrow> request list \<Rightarrow> outcome" where
  "throw this e log = \<lparr>result = Inl e, self = this, sent = log\<rparr>"

definition healthCheck :: "transport \<Rightarrow> DorisAgent \<Rightarrow> request list \<Rightarrow> outcome" where
  "healthCheck net this log =
     await_return this (\<lambda>resp. Inr (data resp))
       (axios_get net (client this) ''/api/health'' log)"

definition ask ::
  "transport \<Rightarrow> DorisAgent \<Rightarrow> jsval \<Rightarrow> jsval \<Rightarrow> jsval \<Rightarrow> request list \<Rightarrow> outcome" where
  "ask net this question apiKey' model' log =
     (let k = js_default apiKey' JNull;
          m = js_default model' (JStr ''deepseek-chat'');
          payload = [(''query'', question)];
          key = js_or k (apiKey this);
          payload' =
            (if truthy key then set_prop (set_prop payload ''api_key'' key) ''model'' m
             else payload)
      in await_return this (\<lambda>resp. Inr (data resp))
           (axios_post net (client this) ''/api/query/natural'' (Data (JObj payload'))
              DefaultHeaders log))"

definition uploadExcel ::
  "transport \<Rightarrow> DorisAgent \<Rightarrow> string \<Rightarrow> jsval \<Rightarrow> jsval \<Rightarrow> request list \<Rightarrow> outcome" where
  "uploadExcel net this filePath tableName createTable' log =
     (let c = js_default createTable' (JBool True);
          form = [FilePart ''file'' filePath];
          form1 = form @ [FieldPart ''table_name'' tableName]
      in case js_toString c of
           Inl e \<Rightarrow> throw this e log
         | Inr s \<Rightarrow>
             await_return this (\<lambda>resp. Inr (data resp))
               (axios_post net (client this) ''/api/upload''
                  (Form (form1 @ [FieldPart ''create_table'' (JStr s)])) FormHeaders log))"

definition previewExcel ::
  "transport \<Rightarrow> DorisAgent \<Rightarrow> string \<Rightarrow> jsval \<Rightarrow> request list \<Rightarrow> outcome" where
  "previewExcel net this filePath rows' log =
     (let n = js_default rows' (JNum 10);
          form = [FilePart ''file'' filePath]
      in case js_toString n of
           Inl e \<Rightarrow> throw this e log
         | Inr s \<Rightarrow>
             await_return this (\<lambda>resp. Inr (data resp))
               (axios_post net (client this) ''/api/upload/preview''
                  (Form (form @ [FieldPart ''rows'' (JStr s)])) FormHeaders log))"

definition query :: "transport \<Rightarrow> DorisAgent \<Rightarrow> jsval \<Rightarrow> request list \<Rightarrow> outcome" where
  "query net this sql log =
     await_return this (\<lambda>resp. Inr (data resp))
       (axios_post net (client this) ''/api/execute''
          (Data (JObj [(''action'', JStr ''query''), (''params'', JObj [(''sql'', sql)])]))
          DefaultHeaders log)"

definition getTables :: "transport \<Rightarrow> DorisAgent \<Rightarrow> request list \<Rightarrow> outcome" where
  "getTables net this log =
     await_return this (\<lambda>resp. get_field (data resp) ''tables'')
       (axios_get net (client this) ''/api/tables'' log)"

definition getTableSchema ::
  "transport \<Rightarrow> DorisAgent \<Rightarrow> jsval \<Rightarrow> request list \<Rightarrow> outcome" where
  "getTableSchema net this tableName log =
     (case js_String tableName of
        Inl e \<Rightarrow> throw this e log
      | Inr s \<Rightarrow>
          await_return this (\<lambda>resp. get_field (data resp) ''schema'')
            (axios_get net (client this) (''/api/tables/'' @ s @ ''/schema'') log))"

definition createLLMConfig ::
  "transport \<Rightarrow> DorisAgent \<Rightarrow> jsval \<Rightarrow> request list \<Rightarrow> outcome" where
  "createLLMConfig net this config log =
     await_return this (\<lambda>resp. Inr (data resp))
       (axios_post net (client this) ''/api/llm/config'' (Data config) DefaultHeaders log)"

text \<open>The eight methods of the class, as one type of calls.\<close>

datatype call =
    HealthCheck
  | Ask jsval jsval jsval
  | UploadExcel string jsval jsval
  | PreviewExcel string jsval
  | Query jsval
  | GetTables
  | GetTableSchema jsval
  | CreateLLMConfig jsval

fun invoke :: "transport \<Rightarrow> DorisAgent \<Rightarrow> call \<Rightarrow> request list \<Rightarrow> outcome" where
  "invoke net this HealthCheck log = healthCheck net this log"
| "invoke net this (Ask q k m) log = ask net this q k m log"
| "invoke net this (UploadExcel p t c) log = uploadExcel net this p t c log"
| "invoke net this (PreviewExcel p n) log = previewExcel net this p n log"
| "invoke net this (Query s) log = query net this s log"
| "invoke net this GetTables log = getTables net this log"
| "invoke net this (GetTableSchema t) log = getTableSchema net this t log"
| "invoke net this (CreateLLMConfig c) log = createLLMConfig net this c log"

text \<open>The last request of an outcome, and the members of its JSON payload.\<close>

definition payload_has :: "request \<Rightarrow> string \<Rightarrow> bool" where
  "payload_has r k = (case req_data r of Data p \<Rightarrow> json_has p k | _ \<Rightarrow> False)"

subsection \<open>Fixtures\<close>

text \<open>An agent made with no API key, one made with a key, a server that answers every
  request with an object, one that cannot be reached, one that answers 404, and one that
  answers every request with status 200 and the JSON body \<open>null\<close>.\<close>

definition agent_nokey :: DorisAgent where
  "agent_nokey =
     \<lparr>baseUrl = ''http://localhost:8018'', apiKey = JNull,
      client = \<lparr>baseURL = ''http://localhost:8018'', timeout = 60000\<rparr>\<rparr>"

definition agent_key :: DorisAgent where
  "agent_key =
     \<lparr>baseUrl = ''http://localhost:8018'', apiKey = JStr ''sk-default'',
      client = \<lparr>baseURL = ''http://localhost:8018'', timeout = 60000\<rparr>\<rparr>"

definition net_ok :: transport where
  "net_ok log req = Inr \<lparr>status = 200, data = JObj [(''success'', JBool True)]\<rparr>"

definition net_refused :: transport where
  "net_refused log req = Inl (AxiosError ''connect ECONNREFUSED 127.0.0.1:8018'' None)"

definition net_404 :: transport where
  "net_404 log req =
     Inl (AxiosError ''Request failed with status code 404''
            (Some (404, JObj [(''detail'', JObj [(''error'', JStr ''table not found'')])])))"

definition net_null :: transport where
  "net_null log req = Inr \<lparr>status = 200, data = JNull\<rparr>"

section \<open>Properties\<close>

subsection \<open>Awaiting a call\<close>

lemmas op_defs = healthCheck_def ask_def uploadExcel_def previewExcel_def query_def
  getTables_def getTableSchema_def createLLMConfig_def

lemma sent_await_return:
  "sent (await_return this f r) = snd r"
  by (cases r) (simp add: await_return_def split: sum.splits)

lemma self_await_return:
  "self (await_return this f r) = this"
  by (cases r) (simp add: await_return_def split: sum.splits)

lemma result_await_return_Inl:
  "fst r = Inl e \<Longrightarrow> result (await_return this f r) = Inl e"
  by (cases r) (simp add: await_return_def)

lemma result_await_return_Inr:
  "fst r = Inr resp \<Longrightarrow> result (await_return this f r) = f resp"
  by (cases r) (simp add: await_return_def)

lemma axios_request_simps:
  "fst (axios_request net c m u d h log) =
     net log \<lparr>req_method = m, req_baseURL = baseURL c, req_url = u, req_data = d,
              req_headers = h, req_timeout = timeout c\<rparr>"
  "snd (axios_request net c m u d h log) =
     log @ [\<lparr>req_method = m, req_baseURL = baseURL c, req_url = u, req_data = d,
             req_headers = h, req_timeout = timeout c\<rparr>]"
  by (simp_all add: axios_request_def Let_def)

subsection \<open>Conversions and property reads\<close>

lemma get_field_missing:
  "d \<noteq> JNull \<Longrightarrow> d \<noteq> JUndefined \<Longrightarrow> \<not> json_has d k \<Longrightarrow> get_field d k = Inr JUndefined"
  by (cases d) (auto split: option.splits)

lemma toString_error:
  "js_toString v = Inl e \<Longrightarrow> e = TypeError"
  "js_join vs = Inl e \<Longrightarrow> e = TypeError"
  by (induction v and vs arbitrary: e and e rule: js_toString_js_join.induct)
    (auto split: option.splits sum.splits if_splits)

subsection \<open>The payload of ask\<close>

text \<open>
  Claim C1, as the code has it: \<open>ask\<close> sends one request, and its JSON payload has the
  members \<open>api_key\<close> and \<open>model\<close> exactly when an API key is there, the one of the call or
  the one of the constructor; with no key it has neither, whether or not a model is given.
\<close>

theorem ask_key_gates_fields:
  "\<exists>r. sent (ask net this q k m log) = log @ [r] \<and>
       (payload_has r ''api_key'' \<longleftrightarrow> truthy k \<or> truthy (apiKey this)) \<and>
       (payload_has r ''model'' \<longleftrightarrow> truthy k \<or> truthy (apiKey this))"
  by (cases "k = JUndefined")
    (auto simp: ask_def Let_def sent_await_return axios_post_def axios_request_simps
      payload_has_def js_or_def js_default_def)

text \<open>
  Claim C1 as stated fails: \<open>agent.ask('q', null, 'gpt-4')\<close> on an agent made without a key
  supplies a model, and the payload is \<open>{query: 'q'}\<close>, with no \<open>model\<close> member.
\<close>

theorem ask_model_without_key_counterexample:
  "map req_data (sent (ask net_ok agent_nokey (JStr ''q'') JNull (JStr ''gpt-4'') [])) =
     [Data (JObj [(''query'', JStr ''q'')])] \<and>
   \<not> payload_has (last (sent (ask net_ok agent_nokey (JStr ''q'') JNull (JStr ''gpt-4'') [])))
       ''model''"
  by (simp add: ask_def Let_def sent_await_return axios_post_def axios_request_simps
      payload_has_def js_or_def js_default_def agent_nokey_def)

text \<open>
  Claim C2, as the code has it: when an API key is there (of the call or of the
  constructor) and the caller gives no model, the payload carries the key and the member
  \<open>model\<close> with the default of the parameter, \<open>'deepseek-chat'\<close>.
\<close>

theorem ask_default_model:
  "truthy k \<or> truthy (apiKey this) \<Longrightarrow>
   sent (ask net this q k JUndefined log) =
     log @ [\<lparr>req_method = POST, req_baseURL = baseURL (client this),
             req_url = ''/api/query/natural'',
             req_data = Data (JObj [(''query'', q), (''api_key'', js_or k (apiKey this)),
                                    (''model'', JStr ''deepseek-chat'')]),
             req_headers = DefaultHeaders, req_timeout = timeout (client this)\<rparr>]"
  by (cases "k = JUndefined")
    (auto simp: ask_def Let_def sent_await_return axios_post_def axios_request_simps
      js_or_def js_default_def)

theorem ask_default_model_witness:
  "truthy (JStr ''sk-1'') \<and>
   map req_data (sent (ask net_ok agent_nokey (JStr ''q'') (JStr ''sk-1'') JUndefined [])) =
     [Data (JObj [(''query'', JStr ''q''), (''api_key'', JStr ''sk-1''),
                  (''model'', JStr ''deepseek-chat'')])]"
  using ask_default_model [of "JStr ''sk-1''" agent_nokey net_ok "JStr ''q''" "[]"]
  by (simp add: js_or_def)

text \<open>
  Claim C2 as stated fails: \<open>agent.ask('q')\<close> on an agent made with the key
  \<open>'sk-default'\<close> gives no model, and the payload has the member \<open>model\<close>.
\<close>

theorem ask_key_without_model_counterexample:
  "map req_data (sent (ask net_ok agent_key (JStr ''q'') JUndefined JUndefined [])) =
     [Data (JObj [(''query'', JStr ''q''), (''api_key'', JStr ''sk-default''),
                  (''model'', JStr ''deepseek-chat'')])] \<and>
   payload_has (last (sent (ask net_ok agent_key (JStr ''q'') JUndefined JUndefined [])))
     ''model''"
  by (simp add: ask_def Let_def sent_await_return axios_post_def axios_request_simps
      payload_has_def js_or_def js_default_def agent_key_def)

text \<open>
  Claim C9: a key given to \<open>ask\<close> that is a non-empty string is the \<open>api_key\<close> of the
  payload, whatever the key of the constructor; a key that is \<open>null\<close>, \<open>undefined\<close> or the
  empty string gives way to the key of the constructor, so the empty string does not
  remove the default key.
\<close>

theorem ask_key_precedence:
  "(s \<noteq> [] \<longrightarrow>
    sent (ask net this q (JStr s) m log) =
      log @ [\<lparr>req_method = POST, req_baseURL = baseURL (client this),
              req_url = ''/api/query/natural'',
              req_data = Data (JObj [(''query'', q), (''api_key'', JStr s),
                                     (''model'', js_default m (JStr ''deepseek-chat''))]),
              req_headers = DefaultHeaders, req_timeout = timeout (client this)\<rparr>]) \<and>
   (k \<in> {JNull, JUndefined, JStr []} \<and> truthy (apiKey this) \<longrightarrow>
    sent (ask net this q k m log) =
      log @ [\<lparr>req_method = POST, req_baseURL = baseURL (client this),
              req_url = ''/api/query/natural'',
              req_data = Data (JObj [(''query'', q), (''api_key'', apiKey this),
                                     (''model'', js_default m (JStr ''deepseek-chat''))]),
              req_headers = DefaultHeaders, req_timeout = timeout (client this)\<rparr>])"
  by (auto simp: ask_def Let_def sent_await_return axios_post_def axios_request_simps
      js_or_def js_default_def)

theorem ask_key_precedence_witness:
  "map req_data (sent (ask net_ok agent_key (JStr ''q'') (JStr ''sk-call'') JUndefined [])) =
     [Data (JObj [(''query'', JStr ''q''), (''api_key'', JStr ''sk-call''),
                  (''model'', JStr ''deepseek-chat'')])] \<and>
   map req_data (sent (ask net_ok agent_key (JStr ''q'') (JStr []) JUndefined [])) =
     [Data (JObj [(''query'', JStr ''q''), (''api_key'', JStr ''sk-default''),
                  (''model'', JStr ''deepseek-chat'')])]"
  using ask_key_precedence [of "''sk-call''" net_ok agent_key "JStr ''q''" JUndefined "[]"
      "JStr []"]
  by (simp add: js_default_def agent_key_def)

subsection \<open>Failures\<close>

text \<open>
  Claim C3: whichever method is called, either it throws a \<open>TypeError\<close> of its own before
  anything is sent, or it sends exactly one request, and when that request is rejected
  with an error (the server not reached, or an answer that is not 2xx) the method rejects
  with that very error: no failure is caught, retried, replaced or turned into a result.
\<close>

theorem invoke_failure_propagates:
  "(sent (invoke net this c log) = log \<and> result (invoke net this c log) = Inl TypeError) \<or>
   (\<exists>req. sent (invoke net this c log) = log @ [req] \<and>
      (\<forall>e. net log req = Inl e \<longrightarrow> result (invoke net this c log) = Inl e))"
proof (cases c)
  case HealthCheck
  then show ?thesis
    by (simp add: healthCheck_def sent_await_return axios_get_def axios_request_simps
        result_await_return_Inl)
next
  case (Ask q k m)
  then show ?thesis
    by (simp add: ask_def Let_def sent_await_return axios_post_def axios_request_simps
        result_await_return_Inl)
next
  case (UploadExcel p t f)
  show ?thesis
  proof (cases "js_toString (js_default f (JBool True))")
    case (Inl e)
    then have "e = TypeError" by (cases e) (auto dest: toString_error)
    with Inl UploadExcel show ?thesis
      by (simp add: uploadExcel_def Let_def throw_def)
  next
    case (Inr s)
    with UploadExcel show ?thesis
      by (simp add: uploadExcel_def Let_def sent_await_return axios_post_def
          axios_request_simps result_await_return_Inl)
  qed
next
  case (PreviewExcel p n)
  show ?thesis
  proof (cases "js_toString (js_default n (JNum 10))")
    case (Inl e)
    then have "e = TypeError" by (auto dest: toString_error)
    with Inl PreviewExcel show ?thesis
      by (simp add: previewExcel_def Let_def throw_def)
  next
    case (Inr s)
    with PreviewExcel show ?thesis
      by (simp add: previewExcel_def Let_def sent_await_return axios_post_def
          axios_request_simps result_await_return_Inl)
  qed
next
  case (Query s)
  then show ?thesis
    by (simp add: query_def sent_await_return axios_post_def axios_request_simps
        result_await_return_Inl)
next
  case GetTables
  then show ?thesis
    by (simp add: getTables_def sent_await_return axios_get_def axios_request_simps
        result_await_return_Inl)
next
  case (GetTableSchema t)
  show ?thesis
  proof (cases "js_String t")
    case (Inl e)
    then have "e = TypeError"
      by (auto simp: js_String_def dest: toString_error split: if_splits)
    with Inl GetTableSchema show ?thesis
      by (simp add: getTableSchema_def throw_def)
  next
    case (Inr s)
    with GetTableSchema show ?thesis
      by (simp add: getTableSchema_def sent_await_return axios_get_def
          axios_request_simps result_await_return_Inl)
  qed
next
  case (CreateLLMConfig cfg)
  then show ?thesis
    by (simp add: createLLMConfig_def sent_await_return axios_post_def axios_request_simps
        result_await_return_Inl)
qed

theorem invoke_failure_propagates_witness:
  "result (invoke net_404 agent_key (GetTableSchema (JStr ''ghost'')) []) =
     Inl (AxiosError ''Request failed with status code 404''
            (Some (404, JObj [(''detail'', JObj [(''error'', JStr ''table not found'')])]))) \<and>
   result (invoke net_refused agent_key HealthCheck []) =
     Inl (AxiosError ''connect ECONNREFUSED 127.0.0.1:8018'' None)"
proof -
  have s1: "sent (invoke net_404 agent_key (GetTableSchema (JStr ''ghost'')) []) \<noteq> []"
    by (simp add: getTableSchema_def js_String_def sent_await_return axios_get_def
        axios_request_simps)
  have s2: "sent (invoke net_refused agent_key HealthCheck []) \<noteq> []"
    by (simp add: healthCheck_def sent_await_return axios_get_def axios_request_simps)
  have r1: "result (invoke net_404 agent_key (GetTableSchema (JStr ''ghost'')) []) =
     Inl (AxiosError ''Request failed with status code 404''
            (Some (404, JObj [(''detail'', JObj [(''error'', JStr ''table not found'')])])))"
    using invoke_failure_propagates
      [of net_404 agent_key "GetTableSchema (JStr ''ghost'')" "[]"] s1
    by (auto simp: net_404_def)
  have r2: "result (invoke net_refused agent_key HealthCheck []) =
     Inl (AxiosError ''connect ECONNREFUSED 127.0.0.1:8018'' None)"
    using invoke_failure_propagates [of net_refused agent_key HealthCheck "[]"] s2
    by (auto simp: net_refused_def)
  from r1 r2 show ?thesis by simp
qed

text \<open>
  Claim C10, as the code has it: when the request of \<open>getTables\<close> (of
  \<open>getTableSchema\<close>) is answered with a JSON body other than \<open>null\<close> that has no
  member \<open>tables\<close> (\<open>schema\<close>), the method returns \<open>undefined\<close> and raises nothing.
  The body is a JSON value, so it is not \<open>undefined\<close> either.
\<close>

theorem missing_field_is_undefined:
  "(net log \<lparr>req_method = GET, req_baseURL = baseURL (client this), req_url = ''/api/tables'',
             req_data = NoBody, req_headers = DefaultHeaders,
             req_timeout = timeout (client this)\<rparr> = Inr resp \<and>
    data resp \<noteq> JNull \<and> data resp \<noteq> JUndefined \<and> \<not> json_has (data resp) ''tables'' \<longrightarrow>
    result (getTables net this log) = Inr JUndefined) \<and>
   (net log \<lparr>req_method = GET, req_baseURL = baseURL (client this),
             req_url = ''/api/tables/'' @ t @ ''/schema'',
             req_data = NoBody, req_headers = DefaultHeaders,
             req_timeout = timeout (client this)\<rparr> = Inr resp \<and>
    data resp \<noteq> JNull \<and> data resp \<noteq> JUndefined \<and> \<not> json_has (data resp) ''schema'' \<longrightarrow>
    result (getTableSchema net this (JStr t) log) = Inr JUndefined)"
  by (simp add: getTables_def getTableSchema_def js_String_def axios_get_def
      result_await_return_Inr axios_request_simps get_field_missing)

theorem missing_field_is_undefined_witness:
  "result (getTables net_ok agent_key []) = Inr JUndefined \<and>
   result (getTableSchema net_ok agent_key (JStr ''ghost'') []) = Inr JUndefined"
  using missing_field_is_undefined
    [of net_ok "[]" agent_key "\<lparr>status = 200, data = JObj [(''success'', JBool True)]\<rparr>"
      "''ghost''"]
  by (simp add: net_ok_def)

text \<open>
  Claim C10 as stated fails: a 200 answer whose JSON body is \<open>null\<close> has neither member,
  and reading \<open>response.data.tables\<close> (\<open>response.data.schema\<close>) throws a \<open>TypeError\<close>.
\<close>

theorem null_body_counterexample:
  "net_null [] \<lparr>req_method = GET, req_baseURL = ''http://localhost:8018'',
                req_url = ''/api/tables'', req_data = NoBody, req_headers = DefaultHeaders,
                req_timeout = 60000\<rparr> = Inr \<lparr>status = 200, data = JNull\<rparr> \<and>
   \<not> json_has JNull ''tables'' \<and>
   result (getTables net_null agent_key []) = Inl TypeError \<and>
   \<not> json_has JNull ''schema'' \<and>
   result (getTableSchema net_null agent_key (JStr ''t'') []) = Inl TypeError"
  by (simp add: net_null_def getTables_def getTableSchema_def js_String_def axios_get_def
      result_await_return_Inr axios_request_simps)

subsection \<open>Construction\<close>

text \<open>
  Claim C4: the constructor sends no request, whatever its arguments, and it fails only
  on a base URL that is not even a string (the \<open>TypeError\<close> of calling \<open>replace\<close> on it):
  with the argument left out or a string, it returns an agent.
\<close>

theorem constructor_no_io:
  "snd (constructor b k log) = log \<and>
   (isl (fst (constructor b k log)) \<longleftrightarrow> b \<noteq> JUndefined \<and> \<not> is_string b)"
  by (cases b) (simp_all add: constructor_def Let_def js_default_def)

text \<open>
  Claim C8: for a base URL that ends with a slash the agent stores it without that slash,
  for one that does not end with a slash it stores it as it is, and the timeout of its
  HTTP client is 60 seconds (60000 ms).
\<close>

theorem constructor_strips_slash:
  "fst (constructor (JStr (t @ ''/'')) k log) =
     Inr \<lparr>baseUrl = t, apiKey = js_default k JNull,
          client = \<lparr>baseURL = t, timeout = 60 * 1000\<rparr>\<rparr> \<and>
   (s = [] \<or> last s \<noteq> CHR ''/'' \<longrightarrow>
    fst (constructor (JStr s) k log) =
      Inr \<lparr>baseUrl = s, apiKey = js_default k JNull,
           client = \<lparr>baseURL = s, timeout = 60 * 1000\<rparr>\<rparr>)"
  by (auto simp: constructor_def Let_def js_default_def axios_create_def)

theorem constructor_strips_slash_witness:
  "fst (constructor (JStr ''http://localhost:8018/'') (JStr ''sk-1'') []) =
     Inr \<lparr>baseUrl = ''http://localhost:8018'', apiKey = JStr ''sk-1'',
          client = \<lparr>baseURL = ''http://localhost:8018'', timeout = 60000\<rparr>\<rparr> \<and>
   fst (constructor (JStr ''http://localhost:8018'') (JStr ''sk-1'') []) =
     Inr \<lparr>baseUrl = ''http://localhost:8018'', apiKey = JStr ''sk-1'',
          client = \<lparr>baseURL = ''http://localhost:8018'', timeout = 60000\<rparr>\<rparr>"
  using constructor_strips_slash [of "''http://localhost:8018''" "JStr ''sk-1''" "[]"
      "''http://localhost:8018''"]
  by (simp add: js_default_def)

subsection \<open>The requests of query and uploadExcel\<close>

text \<open>
  Claim C5: for every SQL string \<open>s\<close>, \<open>query\<close> sends one POST to \<open>/api/execute\<close> whose
  body is \<open>{action: 'query', params: {sql: s}}\<close>.
\<close>

theorem query_request:
  "sent (query net this (JStr s) log) =
     log @ [\<lparr>req_method = POST, req_baseURL = baseURL (client this),
             req_url = ''/api/execute'',
             req_data = Data (JObj [(''action'', JStr ''query''),
                                    (''params'', JObj [(''sql'', JStr s)])]),
             req_headers = DefaultHeaders, req_timeout = timeout (client this)\<rparr>]"
  by (simp add: query_def sent_await_return axios_post_def axios_request_simps)

text \<open>
  Claim C6: for every file path and table name, \<open>uploadExcel\<close> posts a form of three
  parts, the file, the field \<open>table_name\<close> and the field \<open>create_table\<close>, whose value is
  \<open>'true'\<close> when the flag is left out and the string of the flag when it is given.
\<close>

theorem uploadExcel_form:
  "sent (uploadExcel net this p (JStr t) JUndefined log) =
     log @ [\<lparr>req_method = POST, req_baseURL = baseURL (client this), req_url = ''/api/upload'',
             req_data = Form [FilePart ''file'' p, FieldPart ''table_name'' (JStr t),
                              FieldPart ''create_table'' (JStr ''true'')],
             req_headers = FormHeaders, req_timeout = timeout (client this)\<rparr>] \<and>
   sent (uploadExcel net this p (JStr t) (JBool b) log) =
     log @ [\<lparr>req_method = POST, req_baseURL = baseURL (client this), req_url = ''/api/upload'',
             req_data = Form [FilePart ''file'' p, FieldPart ''table_name'' (JStr t),
                              FieldPart ''create_table''
                                (JStr (if b then ''true'' else ''false''))],
             req_headers = FormHeaders, req_timeout = timeout (client this)\<rparr>]"
  by (simp add: uploadExcel_def Let_def js_default_def sent_await_return axios_post_def
      axios_request_simps)

subsection \<open>The agent after a call\<close>

text \<open>
  Claim C7: whichever method is called, with whatever arguments and whatever the network
  answers, the agent is afterwards what it was before: base URL, API key and HTTP client
  are unchanged.
\<close>

theorem invoke_self_unchanged:
  "self (invoke net this c log) = this"
  by (cases c) (simp_all add: op_defs Let_def self_await_return throw_def split: sum.splits)

end
